theory Spec2Isabelle
  imports Main
begin

section \<open>Network Researcher: configuration, startup and front-ends\<close>

text \<open>
  A shallow embedding of \<^verbatim>\<open>src/network_researcher.py\<close>. The program is glue code:
  it reads environment variables, asks remote servers for their tools, builds an agent
  and serves it from a terminal loop or from a network listener. Everything the program
  does to the outside is recorded as a list of events, in program order; everything the
  outside does to the program (the environment, the command line, the answers of the
  remote servers, the operating system, the agent framework, the terminal) is a
  parameter of the model.

  Strings are lists of 8-bit characters. Text read from the terminal is taken to be
  ASCII; the emoji of the printed banners appear as their UTF-8 bytes.
\<close>

subsection \<open>Python values and exceptions\<close>

text \<open>
  The exception classes the handlers of the program tell apart:
  \<^verbatim>\<open>KeyboardInterrupt\<close>; the instances of \<^verbatim>\<open>Exception\<close> (class name and
  message); and the remaining classes derived from \<^verbatim>\<open>BaseException\<close> only, such as
  \<^verbatim>\<open>SystemExit\<close>, \<^verbatim>\<open>GeneratorExit\<close> and \<^verbatim>\<open>asyncio.CancelledError\<close>.
\<close>

datatype exn =
    KeyboardInterrupt
  | Exception string string
  | BaseException string string

text \<open>What \<^verbatim>\<open>except Exception\<close> matches.\<close>

fun is_Exception :: "exn \<Rightarrow> bool" where
  "is_Exception (Exception cls msg) = True"
| "is_Exception KeyboardInterrupt = False"
| "is_Exception (BaseException cls msg) = False"

text \<open>\<^verbatim>\<open>str(e)\<close>, as an f-string renders an exception.\<close>

fun str_exn :: "exn \<Rightarrow> string" where
  "str_exn (Exception cls msg) = msg"
| "str_exn KeyboardInterrupt = []"
| "str_exn (BaseException cls msg) = msg"

text \<open>
  A value interpolated into an f-string. Formatted text is kept as its template, with
  \<^verbatim>\<open>{}\<close> for each hole, and the list of values that fill the holes.
\<close>

datatype pyval = S string | N int | L "string list" | NoneVal

text \<open>\<^verbatim>\<open>os.environ\<close> and \<^verbatim>\<open>os.getenv(key, default)\<close>.\<close>

type_synonym env = "string \<rightharpoonup> string"

definition getenv :: "env \<Rightarrow> string \<Rightarrow> string \<Rightarrow> string" where
  "getenv e key dflt = (case e key of Some v \<Rightarrow> v | None \<Rightarrow> dflt)"

text \<open>\<^verbatim>\<open>os.getenv(key)\<close> without a default, interpolated: the value or \<^verbatim>\<open>None\<close>.\<close>

definition getenv_val :: "env \<Rightarrow> string \<Rightarrow> pyval" where
  "getenv_val e key = (case e key of Some v \<Rightarrow> S v | None \<Rightarrow> NoneVal)"

text \<open>
  Python's \<^verbatim>\<open>str.isspace\<close> on ASCII: tab, line feed, vertical tab, form feed,
  carriage return, the four separators \<^verbatim>\<open>0x1c\<close> to \<^verbatim>\<open>0x1f\<close>, and the space.
\<close>

definition py_whitespace :: "char list" where
  "py_whitespace =
     [CHR 0x09, CHR 0x0A, CHR 0x0B, CHR 0x0C, CHR 0x0D,
      CHR 0x1C, CHR 0x1D, CHR 0x1E, CHR 0x1F, CHR 0x20]"

definition isspace :: "char \<Rightarrow> bool" where
  "isspace c = (c \<in> set py_whitespace)"

text \<open>\<^verbatim>\<open>str.strip()\<close>: leading and trailing whitespace removed.\<close>

definition strip :: "string \<Rightarrow> string" where
  "strip s = rev (dropWhile isspace (rev (dropWhile isspace s)))"

text \<open>\<^verbatim>\<open>str.lower()\<close> on ASCII: the 26 capital letters change, nothing else does.\<close>

definition lower_char :: "char \<Rightarrow> char" where
  "lower_char c =
     (case map_of (zip ''ABCDEFGHIJKLMNOPQRSTUVWXYZ'' ''abcdefghijklmnopqrstuvwxyz'') c of
        Some l \<Rightarrow> l
      | None \<Rightarrow> c)"

definition lower :: "string \<Rightarrow> string" where
  "lower s = map lower_char s"

text \<open>
  \<^verbatim>\<open>int(s)\<close> on a string: surrounding whitespace is dropped, one sign is allowed, and
  the rest is decimal digits in groups separated by single underscores. Anything else
  raises \<^verbatim>\<open>ValueError\<close>, here \<open>None\<close>.
\<close>

definition digit_val :: "char \<Rightarrow> nat option" where
  "digit_val c = map_of (zip ''0123456789'' [0, 1, 2, 3, 4, 5, 6, 7, 8, 9]) c"

text \<open>
  The digits after the first one: \<open>acc\<close> is the value read so far and \<open>us\<close> tells
  whether the previous character was an underscore.
\<close>

fun int_digits :: "nat \<Rightarrow> bool \<Rightarrow> string \<Rightarrow> nat option" where
  "int_digits acc us [] = (if us then None else Some acc)"
| "int_digits acc us (c # cs) =
     (if c = CHR ''_'' then (if us then None else int_digits acc True cs)
      else (case digit_val c of
              None \<Rightarrow> None
            | Some d \<Rightarrow> int_digits (10 * acc + d) False cs))"

definition int_unsigned :: "string \<Rightarrow> nat option" where
  "int_unsigned s =
     (case s of
        [] \<Rightarrow> None
      | c # cs \<Rightarrow> (case digit_val c of None \<Rightarrow> None | Some d \<Rightarrow> int_digits d False cs))"

definition py_int :: "string \<Rightarrow> int option" where
  "py_int s =
     (case strip s of
        [] \<Rightarrow> None
      | c # cs \<Rightarrow>
          if c = CHR ''-'' then map_option (\<lambda>n. - int n) (int_unsigned cs)
          else if c = CHR ''+'' then map_option int (int_unsigned cs)
          else map_option int (int_unsigned (c # cs)))"

text \<open>The \<^verbatim>\<open>ValueError\<close> of a failed \<^verbatim>\<open>int(s)\<close>.\<close>

definition int_error :: "string \<Rightarrow> exn" where
  "int_error s =
     Exception ''ValueError''
       (''invalid literal for int() with base 10: '' @ [CHR 0x27] @ s @ [CHR 0x27])"

subsection \<open>Tool registry configuration\<close>

text \<open>
  The two module-level dictionaries, built when the module is loaded. A dictionary is a
  list of key and value pairs in insertion order.
\<close>

record server_config =
  name :: string
  url :: string
  description :: string

definition MCP_SERVERS :: "env \<Rightarrow> (string \<times> server_config) list" where
  "MCP_SERVERS e =
     [(''ovs-vswitchd'',
       \<lparr>name = ''Open vSwitch Database'',
        url = getenv e ''MCP_OVS_VSWITCHD_URL'' ''http://localhost:8080'',
        description =
          ''Manages Open vSwitch bridges, ports, interfaces, flow tables, and controllers''\<rparr>),
      (''ovn-nb'',
       \<lparr>name = ''OVN Northbound Database'',
        url = getenv e ''MCP_OVN_NB_URL'' ''http://localhost:8081'',
        description =
          ''Manages logical switches, routers, load balancers, ACLs, and DHCP options''\<rparr>),
      (''ovn-sb'',
       \<lparr>name = ''OVN Southbound Database'',
        url = getenv e ''MCP_OVN_SB_URL'' ''http://localhost:8082'',
        description =
          ''Manages chassis, datapaths, logical flows, port bindings, and MAC bindings''\<rparr>)]"

definition IC_MCP_SERVERS :: "env \<Rightarrow> (string \<times> server_config) list" where
  "IC_MCP_SERVERS e =
     [(''ovn-ic-nb'',
       \<lparr>name = ''OVN IC Northbound Database'',
        url = getenv e ''MCP_OVN_IC_NB_URL'' ''http://localhost:8083'',
        description =
          ''Manages interconnection global config, transit switches, and SSL configs''\<rparr>),
      (''ovn-ic-sb'',
       \<lparr>name = ''OVN IC Southbound Database'',
        url = getenv e ''MCP_OVN_IC_SB_URL'' ''http://localhost:8084'',
        description =
          ''Manages availability zones, gateways, and interconnection routing''\<rparr>)]"

subsection \<open>Events\<close>

datatype level = INFO | ERROR

text \<open>The connection descriptor of one server: transport kind and URL.\<close>

datatype connection = Connection (transport: string) (conn_url: string)

type_synonym mcp_config = "(string \<times> connection) list"

text \<open>A tool as the program sees it: its name; the rest of it is opaque.\<close>

datatype tool = Tool (tool_name: string) (tool_contract: string)

text \<open>A message of a conversation: role and content.\<close>

datatype message = Message (role: string) (content: string)

record agent_skill =
  skill_name :: string
  skill_description :: string
  examples :: "string list"

record agent_card =
  card_name :: string
  card_description :: string
  skills :: "agent_skill list"
  capabilities :: "(string \<times> bool) list"
  card_url :: "string \<times> pyval list"

record chat_model =
  base_url :: string
  api_key :: string
  model_name :: string
  temperature_tenths :: nat
  max_tokens :: nat
  verbose :: bool

datatype event =
    Print string
  | Printf string "pyval list"
  | Log level string "pyval list"
  | Prompt string
  | ChatOpenAI chat_model
  | MultiServerMCPClient mcp_config
  | Get_tools nat
  | Create_react_agent chat_model "tool list" string
  | Ainvoke string string
  | Pretty_print message
  | To_a2a_server
  | Set_agent_card agent_card
  | HTTPServer string int
  | Thread_start string bool
  | Run_server string int

subsection \<open>The health check handler\<close>

text \<open>
  \<^verbatim>\<open>HealthCheckHandler.do_GET\<close> (lines 40 to 51). The handler reads the request path
  and writes a response through the four calls of the request handler; the response
  under construction is passed along.
\<close>

record http_response =
  status :: "nat option"
  headers :: "(string \<times> string) list"
  headers_ended :: bool
  body :: string

definition no_response :: http_response where
  "no_response = \<lparr>status = None, headers = [], headers_ended = False, body = []\<rparr>"

definition send_response :: "nat \<Rightarrow> http_response \<Rightarrow> http_response" where
  "send_response code r = r\<lparr>status := Some code\<rparr>"

definition send_header :: "string \<Rightarrow> string \<Rightarrow> http_response \<Rightarrow> http_response" where
  "send_header k v r = r\<lparr>headers := headers r @ [(k, v)]\<rparr>"

definition end_headers :: "http_response \<Rightarrow> http_response" where
  "end_headers r = r\<lparr>headers_ended := True\<rparr>"

definition wfile_write :: "string \<Rightarrow> http_response \<Rightarrow> http_response" where
  "wfile_write bs r = r\<lparr>body := body r @ bs\<rparr>"

definition do_GET :: "string \<Rightarrow> http_response" where
  "do_GET path =
     (if path = ''/health''
      then wfile_write ''OK''
             (end_headers (send_header ''Content-type'' ''text/plain''
                (send_response 200 no_response)))
      else end_headers (send_response 404 no_response))"

subsection \<open>The world around the program\<close>

text \<open>
  What the program cannot decide itself. \<open>get_tools k cfg\<close> is the outcome of the
  \<open>k\<close>-th call of \<^verbatim>\<open>get_tools()\<close>, made on a client built from \<open>cfg\<close>: the tools
  or the exception raised. \<open>socket_bind p\<close> is the message of the \<^verbatim>\<open>OSError\<close> with
  which binding port \<open>p\<close> fails, if it fails; \<open>thread_start\<close> the message of the
  \<^verbatim>\<open>RuntimeError\<close> with which starting a thread fails, if it fails.
  \<open>react_agent model tools prompt\<close> is the agent the framework builds: one call takes
  the conversation store and the content of the user message, and gives the messages of
  the response or the exception raised, with the store as the call leaves it.
  \<open>checkpointer\<close> is the fresh conversation store, \<open>agent_type\<close> the class name of
  the agent, and \<open>terminal\<close> what the successive calls of \<^verbatim>\<open>input()\<close> do: return
  a line or raise.
\<close>

type_synonym 's agent = "'s \<Rightarrow> string \<Rightarrow> (exn + message list) \<times> 's"

record 's world =
  get_tools :: "nat \<Rightarrow> mcp_config \<Rightarrow> exn + tool list"
  socket_bind :: "int \<Rightarrow> string option"
  thread_start :: "string option"
  react_agent :: "chat_model \<Rightarrow> tool list \<Rightarrow> string \<Rightarrow> 's agent"
  checkpointer :: 's
  agent_type :: string
  terminal :: "(exn + string) list"

subsection \<open>Starting the health listener\<close>

text \<open>
  The body of the \<^verbatim>\<open>try\<close> of \<^verbatim>\<open>_start_health_server\<close> (lines 104 to 113): the
  events it got to, and the exception it raised, if any. A port outside 0 to 65535 is an
  \<^verbatim>\<open>OverflowError\<close> of the bind.
\<close>

definition health_try :: "env \<Rightarrow> 's world \<Rightarrow> event list \<times> exn option" where
  "health_try e w =
     (let s = getenv e ''HEALTH_PORT'' ''8086'' in
      case py_int s of
        None \<Rightarrow> ([], Some (int_error s))
      | Some health_port \<Rightarrow>
          if health_port < 0 \<or> 65535 < health_port
          then ([], Some (Exception ''OverflowError'' ''bind(): port must be 0-65535.''))
          else (case socket_bind w health_port of
                  Some msg \<Rightarrow> ([], Some (Exception ''OSError'' msg))
                | None \<Rightarrow>
                    (case thread_start w of
                       Some msg \<Rightarrow>
                         ([HTTPServer ''0.0.0.0'' health_port],
                          Some (Exception ''RuntimeError'' msg))
                     | None \<Rightarrow>
                         ([HTTPServer ''0.0.0.0'' health_port,
                           Thread_start ''run_health_server'' True,
                           Log INFO ''Health check server started on port {}''
                             [N health_port]],
                          None))))"

text \<open>
  \<^verbatim>\<open>_start_health_server\<close> (lines 100 to 115): \<^verbatim>\<open>except Exception\<close> logs what it
  catches; anything else leaves the function. The second component is the exception
  that leaves it.
\<close>

definition start_health_server :: "env \<Rightarrow> 's world \<Rightarrow> event list \<times> exn option" where
  "start_health_server e w =
     (case health_try e w of
        (evs, None) \<Rightarrow> (evs, None)
      | (evs, Some x) \<Rightarrow>
          if is_Exception x
          then (evs @ [Log ERROR ''Failed to start health check server: {}'' [S (str_exn x)]],
                None)
          else (evs, Some x))"

subsection \<open>The interactive loop\<close>

definition nl :: char where
  "nl = CHR 0x0A"

definition wave :: string where
  "wave = [CHR 0xF0, CHR 0x9F, CHR 0x91, CHR 0x8B]"

definition magnifier :: string where
  "magnifier = [CHR 0xF0, CHR 0x9F, CHR 0x94, CHR 0x8D]"

definition check_mark :: string where
  "check_mark = [CHR 0xE2, CHR 0x9C, CHR 0x85]"

definition exit_keywords :: "string list" where
  "exit_keywords = [''quit'', ''exit'', ''q'']"

definition test_query :: string where
  "test_query = ''Please summarize the logical network topology in OVN''"

definition thread_id :: string where
  "thread_id = ''1''"

definition input_prompt :: string where
  "input_prompt = nl # ''You: ''"

text \<open>
  One call of the agent with a user message, and the printing of the response
  (lines 308 to 320 and 323 to 327). The middle component is the exception raised.
\<close>

definition ask :: "'s agent \<Rightarrow> 's \<Rightarrow> string \<Rightarrow> event list \<times> exn option \<times> 's" where
  "ask ag st text =
     (case ag st text of
        (Inl x, st') \<Rightarrow> ([Ainvoke text thread_id], Some x, st')
      | (Inr msgs, st') \<Rightarrow> (Ainvoke text thread_id # map Pretty_print msgs, None, st'))"

text \<open>
  The body of the \<^verbatim>\<open>try\<close> of one iteration (lines 301 to 327). The middle component
  is \<open>Inl x\<close> when \<open>x\<close> was raised, \<open>Inr True\<close> after \<^verbatim>\<open>break\<close>, and \<open>Inr False\<close>
  when the body ran to its end.
\<close>

definition turn_body ::
  "'s agent \<Rightarrow> 's \<Rightarrow> exn + string \<Rightarrow> event list \<times> (exn + bool) \<times> 's" where
  "turn_body ag st inp =
     (case inp of
        Inl x \<Rightarrow> ([Prompt input_prompt], Inl x, st)
      | Inr line \<Rightarrow>
          (let user_input = strip line in
           if lower user_input \<in> set exit_keywords
           then ([Prompt input_prompt, Print (''Goodbye! '' @ wave)], Inr True, st)
           else if lower user_input = ''test''
           then (case ask ag st test_query of
                   (evs, r, st') \<Rightarrow>
                     ([Prompt input_prompt,
                       Print (nl # magnifier @ '' Running the usage test...'')] @ evs,
                      (case r of Some x \<Rightarrow> Inl x | None \<Rightarrow> Inr False), st'))
           else (case ask ag st user_input of
                   (evs, r, st') \<Rightarrow>
                     ([Prompt input_prompt,
                       Print (nl # magnifier @ '' Researching...'')] @ evs,
                      (case r of Some x \<Rightarrow> Inl x | None \<Rightarrow> Inr False), st'))))"

datatype flow = Continue | Break | Propagate exn

text \<open>
  One iteration of the loop (lines 300 to 333): the body and the two handlers,
  \<^verbatim>\<open>except KeyboardInterrupt\<close> first and \<^verbatim>\<open>except Exception\<close> second.
\<close>

definition turn :: "'s agent \<Rightarrow> 's \<Rightarrow> exn + string \<Rightarrow> event list \<times> flow \<times> 's" where
  "turn ag st inp =
     (case turn_body ag st inp of
        (evs, Inr brk, st') \<Rightarrow> (evs, (if brk then Break else Continue), st')
      | (evs, Inl x, st') \<Rightarrow>
          if x = KeyboardInterrupt
          then (evs @ [Print (nl # nl # ''Goodbye! '' @ wave)], Break, st')
          else if is_Exception x
          then (evs @ [Printf (nl # ''Error: {}'') [S (str_exn x)]], Continue, st')
          else (evs, Propagate x, st'))"

text \<open>
  The loop \<^verbatim>\<open>while True\<close> (line 299) over what the terminal does. The loop only ends
  by \<^verbatim>\<open>break\<close> or by an exception that no handler catches; when the recorded terminal
  activity is used up the loop has not ended, which is \<open>Awaiting_input\<close>.
\<close>

datatype loop_end = Broke | Propagated exn | Awaiting_input

fun interactive_loop ::
  "'s agent \<Rightarrow> 's \<Rightarrow> (exn + string) list \<Rightarrow> event list \<times> loop_end \<times> 's" where
  "interactive_loop ag st [] = ([], Awaiting_input, st)"
| "interactive_loop ag st (inp # rest) =
     (case turn ag st inp of
        (evs, Break, st') \<Rightarrow> (evs, Broke, st')
      | (evs, Propagate x, st') \<Rightarrow> (evs, Propagated x, st')
      | (evs, Continue, st') \<Rightarrow>
          (case interactive_loop ag st' rest of
             (evs', r, st'') \<Rightarrow> (evs @ evs', r, st'')))"

subsection \<open>Startup\<close>

text \<open>
  The command line after \<^verbatim>\<open>argparse\<close>: the two flags, and the two options when
  given. \<^verbatim>\<open>--port\<close> has \<^verbatim>\<open>type=int\<close>, so a port given on the command line is a
  number already.
\<close>

record cli =
  flag_interactive :: bool
  opt_host :: "string option"
  opt_port :: "int option"
  flag_ic :: bool

record args =
  interactive :: bool
  host :: string
  port :: int
  ic :: bool

text \<open>
  Lines 119 to 164. The default of \<^verbatim>\<open>--port\<close> is computed when the parser is built:
  \<^verbatim>\<open>int(os.getenv("A2A_PORT", "8085"))\<close> raises when the variable is no integer,
  whatever the command line says.
\<close>

definition parse_args :: "env \<Rightarrow> cli \<Rightarrow> exn + args" where
  "parse_args e c =
     (let s = getenv e ''A2A_PORT'' ''8085'' in
      case py_int s of
        None \<Rightarrow> Inl (int_error s)
      | Some p \<Rightarrow>
          Inr \<lparr>interactive = flag_interactive c,
               host = (case opt_host c of
                         Some h \<Rightarrow> h
                       | None \<Rightarrow> getenv e ''A2A_HOST'' ''0.0.0.0''),
               port = (case opt_port c of Some q \<Rightarrow> q | None \<Rightarrow> p),
               ic = flag_ic c\<rparr>)"

definition banner :: "event list" where
  "banner =
     [Print (magnifier @ '' Network Researcher with OpenAI-compatible model''),
      Print (replicate 60 CHR ''=''),
      Print ''This researcher uses an OpenAI-compatible server for inference!'',
      Print (replicate 60 CHR ''='')]"

text \<open>Lines 166 to 195: the banner, the model endpoint and the model client.\<close>

definition build_model :: "env \<Rightarrow> event list \<times> (exn + chat_model)" where
  "build_model e =
     (let model_endpoint_url =
            getenv e ''RESEARCHER_MODEL_ENDPOINT_URL'' ''http://localhost:11434''
      in if model_endpoint_url = []
         then (banner,
               Inl (Exception ''ValueError''
                      ''RESEARCHER_MODEL_ENDPOINT_URL environment variable must be set''))
         else
           (let mname = getenv e ''RESEARCHER_MODEL_NAME'' ''default'';
                model = \<lparr>base_url = model_endpoint_url, api_key = ''dummy'',
                         model_name = mname, temperature_tenths = 1,
                         max_tokens = 4096, verbose = True\<rparr>
            in (banner @
                [ChatOpenAI model,
                 Log INFO ''Initializing Network Researcher with OpenAI-compatible model...'' [],
                 Log INFO ''Using model endpoint: {}'' [S model_endpoint_url],
                 Log INFO ''Using model: {}'' [S mname]],
                Inr model)))"

text \<open>\<^verbatim>\<open>d[k] = v\<close> on a dictionary: a present key keeps its place.\<close>

fun dict_set :: "('k \<times> 'v) list \<Rightarrow> 'k \<Rightarrow> 'v \<Rightarrow> ('k \<times> 'v) list" where
  "dict_set [] k v = [(k, v)]"
| "dict_set ((k', v') # d) k v =
     (if k' = k then (k, v) # d else (k', v') # dict_set d k v)"

text \<open>
  The loop over the items of a registry (lines 199 to 204, 207 to 212 and 226 to 231):
  each server gets its connection descriptor and a log line.
\<close>

fun add_servers ::
  "(string \<times> server_config) list \<Rightarrow> mcp_config \<times> event list \<Rightarrow> mcp_config \<times> event list" where
  "add_servers [] acc = acc"
| "add_servers ((server_name, server_cfg) # rest) (cfg, evs) =
     add_servers rest
       (dict_set cfg server_name (Connection ''streamable_http'' (url server_cfg)),
        evs @ [Log INFO ''MCP Server {}: {}'' [S server_name, S (url server_cfg)]])"

text \<open>Lines 198 to 212: the first configuration, with the cross-zone servers under \<^verbatim>\<open>--ic\<close>.\<close>

definition first_mcp_config :: "env \<Rightarrow> bool \<Rightarrow> mcp_config \<times> event list" where
  "first_mcp_config e use_ic =
     (let acc = add_servers (MCP_SERVERS e) ([], [])
      in if use_ic then add_servers (IC_MCP_SERVERS e) acc else acc)"

text \<open>Lines 225 to 231: the second configuration, which starts from an empty dictionary.\<close>

definition second_mcp_config :: "env \<Rightarrow> mcp_config \<times> event list" where
  "second_mcp_config e = add_servers (MCP_SERVERS e) ([], [])"

definition tools_loaded :: "tool list \<Rightarrow> event list" where
  "tools_loaded tools =
     [Log INFO ''Successfully loaded {} tools from MCP servers'' [N (int (length tools))],
      Log INFO ''Available tools: {}'' [L (map tool_name tools)]]"

text \<open>
  Lines 197 to 247. The first call of \<^verbatim>\<open>get_tools()\<close> stands outside any \<^verbatim>\<open>try\<close>;
  the second one is wrapped in \<^verbatim>\<open>except Exception\<close>, which logs and raises again.
  The variable \<^verbatim>\<open>tools\<close> keeps what the second call returned.
\<close>

definition load_tools :: "env \<Rightarrow> bool \<Rightarrow> 's world \<Rightarrow> event list \<times> (exn + tool list)" where
  "load_tools e use_ic w =
     (case first_mcp_config e use_ic of
        (cfg1, logs1) \<Rightarrow>
          (let evs1 = logs1 @ [MultiServerMCPClient cfg1, Get_tools 0] in
           case get_tools w 0 cfg1 of
             Inl x \<Rightarrow> (evs1, Inl x)
           | Inr tools1 \<Rightarrow>
               (case second_mcp_config e of
                  (cfg2, logs2) \<Rightarrow>
                    (let evs2 = evs1 @ tools_loaded tools1 @ logs2 @
                                [MultiServerMCPClient cfg2, Get_tools 1] in
                     case get_tools w 1 cfg2 of
                       Inl x \<Rightarrow>
                         ((if is_Exception x
                           then evs2 @ [Log ERROR ''Failed to load tools from MCP servers: {}''
                                          [S (str_exn x)]]
                           else evs2),
                          Inl x)
                     | Inr tools \<Rightarrow> (evs2 @ tools_loaded tools, Inr tools)))))"

definition prompt :: string where
  "prompt = concat
     [''You are a network researcher that MUST use tools to gather information from OVS/OVN databases.'', [nl],
      ''You are running in a Kubernetes cluster where OVN-Kubernetes is installed and providing the networking for the cluster.'', [nl],
      [nl],
      ''IMPORTANT: You MUST use the available tools to gather information. Do not make assumptions or provide generic answers.'', [nl],
      [nl],
      ''When users ask questions:'', [nl],
      ''1. ALWAYS identify which tools are needed to gather the requested information'', [nl],
      ''2. USE those tools to collect data from the databases'', [nl],
      ''3. Return the raw information gathered from the tools'', [nl],
      [nl],
      ''For example:'', [nl],
      ''- If asked about bridges, use the list_bridges tool'', [nl],
      ''- If asked about logical switches, use the list_logical_switches tool'', [nl],
      ''- If asked about ACLs, use the list_acls tool'', [nl],
      ''- If asked about network topology, use multiple tools to gather comprehensive information'', [nl],
      [nl],
      ''You are NOT responsible for:'', [nl],
      ''- Making configuration changes'', [nl],
      ''- Performing debugging or troubleshooting'', [nl],
      ''- Executing commands to fix issues'', [nl],
      ''- Providing expert analysis or recommendations'', [nl],
      [nl],
      ''Your job is to gather and return the requested information using the available tools.'']"

text \<open>Lines 274 to 291: the agent is built from the model, \<^verbatim>\<open>tools\<close> and the prompt.\<close>

definition create_agent :: "env \<Rightarrow> 's world \<Rightarrow> chat_model \<Rightarrow> tool list \<Rightarrow> event list" where
  "create_agent e w model tools =
     [Create_react_agent model tools prompt,
      Log INFO ''Agent created successfully with {} tools'' [N (int (length tools))],
      Log INFO ''Agent type: {}'' [S (agent_type w)],
      Print (check_mark @ '' Researcher initialized successfully!''),
      Print ''I can gather information about Open Virtual Networking and Open vSwitch.'',
      Print ''I can help you with:'',
      Print ''- Network configuration data'',
      Print ''- OVS/OVN database queries'',
      Print ''- Network topology information'',
      Print ''- Current network state'',
      Printf (nl # ''Connected to {} MCP servers with {} tools'')
        [N (int (length (MCP_SERVERS e))), N (int (length tools))]]"

subsection \<open>The two front-ends\<close>

datatype outcome = Returned | Raised exn | Serving | Awaiting

text \<open>
  Lines 293 to 333. \<open>Returned\<close>: the loop ended by \<^verbatim>\<open>break\<close> and \<^verbatim>\<open>main\<close> returns;
  \<open>Raised x\<close>: \<open>x\<close> leaves \<^verbatim>\<open>main\<close>; \<open>Awaiting\<close>: the loop is still running.
\<close>

definition interactive_front_end :: "'s agent \<Rightarrow> 's world \<Rightarrow> event list \<times> outcome" where
  "interactive_front_end ag w =
     (case interactive_loop ag (checkpointer w) (terminal w) of
        (evs, r, st) \<Rightarrow>
          ([Print (nl # ''Type 'quit' to exit''), Print (replicate 60 CHR ''-'')] @ evs,
           (case r of
              Broke \<Rightarrow> Returned
            | Propagated x \<Rightarrow> Raised x
            | Awaiting_input \<Rightarrow> Awaiting)))"

definition researcher_card :: "args \<Rightarrow> agent_card" where
  "researcher_card a =
     \<lparr>card_name = ''Network Researcher'',
      card_description =
        ''I can gather information about Open Virtual Networking and Open vSwitch to answer questions about the network.'',
      skills =
        [\<lparr>skill_name = ''Research Network Information'',
          skill_description = ''Uses tools to gather information about the network.'',
          examples =
            [''What is the OVN network topology?'',
             ''How many logical switches are there?'',
             ''Are there any ACLs configured?'',
             ''What Open vSwitch bridges are there?'',
             ''What are the current flows in Open vSwitch?'']\<rparr>],
      capabilities = [(''streaming'', True), (''memory'', True)],
      card_url = (''http://{}:{}'', [S (host a), N (port a)])\<rparr>"

text \<open>
  Lines 335 to 374. \<^verbatim>\<open>run_server\<close> does not return while the server runs, which is
  the outcome \<open>Serving\<close>.
\<close>

definition network_front_end :: "env \<Rightarrow> args \<Rightarrow> 's world \<Rightarrow> event list \<times> outcome" where
  "network_front_end e a w =
     (case start_health_server e w of
        (hevs, Some x) \<Rightarrow>
          ([To_a2a_server, Set_agent_card (researcher_card a)] @ hevs, Raised x)
      | (hevs, None) \<Rightarrow>
          ([To_a2a_server, Set_agent_card (researcher_card a)] @ hevs @
           [Print (check_mark @ '' A2A Server initialized successfully!''),
            Print ''I can gather information about Open Virtual Networking and Open vSwitch.'',
            Printf ''Connected to {} MCP servers'' [N (int (length (MCP_SERVERS e)))],
            Printf ''Using OpenAI-compatible model at: {}''
              [getenv_val e ''RESEARCHER_MODEL_ENDPOINT_URL''],
            Printf ''A2A Server listening on {}:{}'' [S (host a), N (port a)],
            Print (nl # ''Ready to accept A2A connections!''),
            Print (replicate 50 CHR ''-''),
            Run_server (host a) (port a)],
           Serving))"

text \<open>\<^verbatim>\<open>main\<close> (lines 118 to 374): what the process does, and how it ends.\<close>

definition main :: "env \<Rightarrow> cli \<Rightarrow> 's world \<Rightarrow> event list \<times> outcome" where
  "main e c w =
     (case parse_args e c of
        Inl x \<Rightarrow> ([], Raised x)
      | Inr a \<Rightarrow>
          (case build_model e of
             (evs1, Inl x) \<Rightarrow> (evs1, Raised x)
           | (evs1, Inr model) \<Rightarrow>
               (case load_tools e (ic a) w of
                  (evs2, Inl x) \<Rightarrow> (evs1 @ evs2, Raised x)
                | (evs2, Inr tools) \<Rightarrow>
                    (case (if interactive a
                           then interactive_front_end (react_agent w model tools prompt) w
                           else network_front_end e a w) of
                       (evs4, out) \<Rightarrow>
                         (evs1 @ evs2 @ create_agent e w model tools @ evs4, out)))))"

subsection \<open>The tool loader of the client library\<close>

text \<open>
  Modelled from the spec: \<^verbatim>\<open>MultiServerMCPClient.get_tools\<close>, which lives in a
  third-party package and not in this repository. The spec (section 4.2) has it request
  the tools of every configured server and return one flat list, de-duplicated by name,
  where the failure of any one server fails the whole load. \<open>discover k server c\<close> is
  what the server named \<open>server\<close>, reached through \<open>c\<close>, answers to the request of the
  \<open>k\<close>-th load. \<^verbatim>\<open>main\<close> above does not depend on this model: it takes the client
  as the parameter \<open>get_tools\<close> of the world. The model is the client of the sample
  worlds below.
\<close>

fun gather ::
  "(string \<Rightarrow> connection \<Rightarrow> exn + tool list) \<Rightarrow> mcp_config \<Rightarrow> exn + tool list" where
  "gather d [] = Inr []"
| "gather d ((server, c) # rest) =
     (case d server c of
        Inl x \<Rightarrow> Inl x
      | Inr ts \<Rightarrow> (case gather d rest of Inl x \<Rightarrow> Inl x | Inr us \<Rightarrow> Inr (ts @ us)))"

fun dedup_by_name :: "string list \<Rightarrow> tool list \<Rightarrow> tool list" where
  "dedup_by_name seen [] = []"
| "dedup_by_name seen (t # ts) =
     (if tool_name t \<in> set seen then dedup_by_name seen ts
      else t # dedup_by_name (tool_name t # seen) ts)"

definition client_get_tools ::
  "(nat \<Rightarrow> string \<Rightarrow> connection \<Rightarrow> exn + tool list) \<Rightarrow> nat \<Rightarrow> mcp_config \<Rightarrow> exn + tool list" where
  "client_get_tools discover k cfg =
     (case gather (discover k) cfg of Inl x \<Rightarrow> Inl x | Inr ts \<Rightarrow> Inr (dedup_by_name [] ts))"

subsection \<open>Observations on the events\<close>

text \<open>The tool lists given to \<^verbatim>\<open>create_react_agent\<close>, in order.\<close>

fun agents_created :: "event list \<Rightarrow> tool list list" where
  "agents_created [] = []"
| "agents_created (Create_react_agent model tools p # evs) = tools # agents_created evs"
| "agents_created (ev # evs) = agents_created evs"

text \<open>The user messages given to \<^verbatim>\<open>agent.ainvoke\<close>, in order.\<close>

fun invocations :: "event list \<Rightarrow> string list" where
  "invocations [] = []"
| "invocations (Ainvoke text tid # evs) = text # invocations evs"
| "invocations (ev # evs) = invocations evs"

text \<open>The model clients built, in order.\<close>

fun models_built :: "event list \<Rightarrow> chat_model list" where
  "models_built [] = []"
| "models_built (ChatOpenAI model # evs) = model # models_built evs"
| "models_built (ev # evs) = models_built evs"

text \<open>The events of the health listener: its socket and its thread.\<close>

fun is_health_event :: "event \<Rightarrow> bool" where
  "is_health_event (HTTPServer h p) = True"
| "is_health_event (Thread_start target daemon) = True"
| "is_health_event ev = False"

definition health_events :: "event list \<Rightarrow> event list" where
  "health_events evs = filter is_health_event evs"

text \<open>The calls of \<^verbatim>\<open>run_server\<close>.\<close>

fun servers_run :: "event list \<Rightarrow> (string \<times> int) list" where
  "servers_run [] = []"
| "servers_run (Run_server h p # evs) = (h, p) # servers_run evs"
| "servers_run (ev # evs) = servers_run evs"

subsection \<open>Sample inputs\<close>

text \<open>
  Concrete surroundings on which the theorems below are exercised: servers that each
  offer one tool, an agent that answers every message, agents that raise, and command
  lines.
\<close>

definition one_tool_each :: "nat \<Rightarrow> string \<Rightarrow> connection \<Rightarrow> exn + tool list" where
  "one_tool_each k server c = Inr [Tool (''list_'' @ server) (conn_url c)]"

definition ic_sb_down :: "nat \<Rightarrow> string \<Rightarrow> connection \<Rightarrow> exn + tool list" where
  "ic_sb_down k server c =
     (if server = ''ovn-ic-sb''
      then Inl (Exception ''ConnectError'' ''All connection attempts failed'')
      else one_tool_each k server c)"

definition answering_agent :: "message list agent" where
  "answering_agent st text =
     (let st' = st @ [Message ''user'' text, Message ''assistant'' ''done'']
      in (Inr st', st'))"

definition failing_agent :: "message list agent" where
  "failing_agent st text = (Inl (Exception ''APIConnectionError'' ''Connection error.''), st)"

definition cancelled_agent :: "message list agent" where
  "cancelled_agent st text = (Inl (BaseException ''CancelledError'' []), st)"

definition sample_world ::
  "(nat \<Rightarrow> string \<Rightarrow> connection \<Rightarrow> exn + tool list) \<Rightarrow> message list agent \<Rightarrow>
   (exn + string) list \<Rightarrow> message list world" where
  "sample_world discover ag script =
     \<lparr>get_tools = client_get_tools discover, socket_bind = (\<lambda>p. None),
      thread_start = None, react_agent = (\<lambda>model tools p. ag), checkpointer = [],
      agent_type = ''CompiledStateGraph'', terminal = script\<rparr>"

definition cli_network :: "bool \<Rightarrow> cli" where
  "cli_network use_ic =
     \<lparr>flag_interactive = False, opt_host = None, opt_port = None, flag_ic = use_ic\<rparr>"

definition cli_interactive :: cli where
  "cli_interactive =
     \<lparr>flag_interactive = True, opt_host = None, opt_port = None, flag_ic = False\<rparr>"

definition default_args :: "bool \<Rightarrow> bool \<Rightarrow> args" where
  "default_args inter_flag use_ic =
     \<lparr>interactive = inter_flag, host = ''0.0.0.0'', port = 8085, ic = use_ic\<rparr>"

definition default_model :: chat_model where
  "default_model =
     \<lparr>base_url = ''http://localhost:11434'', api_key = ''dummy'', model_name = ''default'',
      temperature_tenths = 1, max_tokens = 4096, verbose = True\<rparr>"

definition base_tools :: "tool list" where
  "base_tools =
     [Tool ''list_ovs-vswitchd'' ''http://localhost:8080'',
      Tool ''list_ovn-nb'' ''http://localhost:8081'',
      Tool ''list_ovn-sb'' ''http://localhost:8082'']"

definition ic_tools :: "tool list" where
  "ic_tools =
     [Tool ''list_ovn-ic-nb'' ''http://localhost:8083'',
      Tool ''list_ovn-ic-sb'' ''http://localhost:8084'']"

definition port_in_use :: "message list world" where
  "port_in_use =
     (sample_world one_tool_each answering_agent [])
       \<lparr>socket_bind := (\<lambda>p. Some ''[Errno 98] Address already in use'')\<rparr>"

subsection \<open>Observations distribute over appended events\<close>

lemma agents_created_append: "agents_created (xs @ ys) = agents_created xs @ agents_created ys"
  by (induction xs rule: agents_created.induct) simp_all

lemma invocations_append: "invocations (xs @ ys) = invocations xs @ invocations ys"
  by (induction xs rule: invocations.induct) simp_all

lemma models_built_append: "models_built (xs @ ys) = models_built xs @ models_built ys"
  by (induction xs rule: models_built.induct) simp_all

lemma servers_run_append: "servers_run (xs @ ys) = servers_run xs @ servers_run ys"
  by (induction xs rule: servers_run.induct) simp_all

lemma health_events_append: "health_events (xs @ ys) = health_events xs @ health_events ys"
  by (simp add: health_events_def)

subsection \<open>The health handler and the registry\<close>

text \<open>
  Claim C7. For every \<^verbatim>\<open>GET\<close> request the health handler answers from the request
  path alone: status 200 with body \<^verbatim>\<open>OK\<close> when the path is \<^verbatim>\<open>/health\<close>, status 404
  with an empty body for every other path. The handler is a function of the path; no
  state of the agent, the tools or the model reaches it.
\<close>
theorem do_GET_response:
  "status (do_GET p) = Some (if p = ''/health'' then 200 else 404)
   \<and> body (do_GET p) = (if p = ''/health'' then ''OK'' else [])
   \<and> headers (do_GET p) = (if p = ''/health'' then [(''Content-type'', ''text/plain'')] else [])
   \<and> headers_ended (do_GET p)"
  by (simp add: do_GET_def wfile_write_def end_headers_def send_header_def
        send_response_def no_response_def)

lemma first_mcp_config_False:
  "fst (first_mcp_config e False) =
     [(''ovs-vswitchd'', Connection ''streamable_http'' (getenv e ''MCP_OVS_VSWITCHD_URL'' ''http://localhost:8080'')),
      (''ovn-nb'', Connection ''streamable_http'' (getenv e ''MCP_OVN_NB_URL'' ''http://localhost:8081'')),
      (''ovn-sb'', Connection ''streamable_http'' (getenv e ''MCP_OVN_SB_URL'' ''http://localhost:8082''))]"
  by (simp add: first_mcp_config_def MCP_SERVERS_def)

lemma first_mcp_config_True:
  "fst (first_mcp_config e True) =
     [(''ovs-vswitchd'', Connection ''streamable_http'' (getenv e ''MCP_OVS_VSWITCHD_URL'' ''http://localhost:8080'')),
      (''ovn-nb'', Connection ''streamable_http'' (getenv e ''MCP_OVN_NB_URL'' ''http://localhost:8081'')),
      (''ovn-sb'', Connection ''streamable_http'' (getenv e ''MCP_OVN_SB_URL'' ''http://localhost:8082'')),
      (''ovn-ic-nb'', Connection ''streamable_http'' (getenv e ''MCP_OVN_IC_NB_URL'' ''http://localhost:8083'')),
      (''ovn-ic-sb'', Connection ''streamable_http'' (getenv e ''MCP_OVN_IC_SB_URL'' ''http://localhost:8084''))]"
  by (simp add: first_mcp_config_def MCP_SERVERS_def IC_MCP_SERVERS_def)

text \<open>
  Claim C4, amended. The registry has three servers, and five under \<^verbatim>\<open>--ic\<close> (the
  claim counts five and seven). For each of them the URL is the value of its environment
  variable when that variable is set, and otherwise its localhost default,
  \<^verbatim>\<open>http://localhost:8080\<close> to \<^verbatim>\<open>http://localhost:8084\<close>; the connection
  descriptors of the first configuration carry the same URLs in the same order.
\<close>
theorem registry_urls:
  "map (\<lambda>(k, sc). (k, url sc)) (MCP_SERVERS e) =
     [(''ovs-vswitchd'', case e ''MCP_OVS_VSWITCHD_URL'' of Some v \<Rightarrow> v | None \<Rightarrow> ''http://localhost:8080''),
      (''ovn-nb'', case e ''MCP_OVN_NB_URL'' of Some v \<Rightarrow> v | None \<Rightarrow> ''http://localhost:8081''),
      (''ovn-sb'', case e ''MCP_OVN_SB_URL'' of Some v \<Rightarrow> v | None \<Rightarrow> ''http://localhost:8082'')]
   \<and> map (\<lambda>(k, sc). (k, url sc)) (IC_MCP_SERVERS e) =
     [(''ovn-ic-nb'', case e ''MCP_OVN_IC_NB_URL'' of Some v \<Rightarrow> v | None \<Rightarrow> ''http://localhost:8083''),
      (''ovn-ic-sb'', case e ''MCP_OVN_IC_SB_URL'' of Some v \<Rightarrow> v | None \<Rightarrow> ''http://localhost:8084'')]
   \<and> map (\<lambda>(k, c). (k, conn_url c)) (fst (first_mcp_config e use_ic)) =
     map (\<lambda>(k, sc). (k, url sc)) (MCP_SERVERS e @ (if use_ic then IC_MCP_SERVERS e else []))"
  by (cases use_ic) (simp_all add: first_mcp_config_True first_mcp_config_False MCP_SERVERS_def IC_MCP_SERVERS_def getenv_def)

text \<open>
  Claim C4 as stated fails: with an empty environment the registry does not have five
  servers without \<^verbatim>\<open>--ic\<close>, nor seven with it.
\<close>
theorem registry_size_counterexample:
  "length (fst (first_mcp_config Map.empty False)) \<noteq> 5
   \<and> length (fst (first_mcp_config Map.empty True)) \<noteq> 7"
  by (simp add: first_mcp_config_True first_mcp_config_False)

subsection \<open>Keywords of the interactive loop\<close>

lemma invocations_Pretty_print [simp]: "invocations (map Pretty_print msgs) = []"
  by (induction msgs) simp_all

lemma invocations_ask: "invocations (fst (ask ag st text)) = [text]"
  by (simp add: ask_def split: prod.splits sum.splits)

lemma turn_body_exit:
  assumes "lower (strip line) \<in> set exit_keywords"
  shows "turn_body ag st (Inr line) =
           ([Prompt input_prompt, Print (''Goodbye! '' @ wave)], Inr True, st)"
  using assms by (simp add: turn_body_def)

text \<open>
  Claim C8. When the stripped, lowercased input line is \<^verbatim>\<open>quit\<close>, \<^verbatim>\<open>exit\<close> or
  \<^verbatim>\<open>q\<close>, whatever the letter case of the line, the iteration prints the farewell and
  breaks, the loop ends there whatever input follows, the agent is not invoked, the
  conversation store is untouched, and \<^verbatim>\<open>main\<close> returns.
\<close>
theorem exit_keyword_ends_loop:
  assumes "lower (strip line) \<in> set exit_keywords"
  shows "turn ag st (Inr line) = ([Prompt input_prompt, Print (''Goodbye! '' @ wave)], Break, st)
       \<and> interactive_loop ag st (Inr line # rest) =
           ([Prompt input_prompt, Print (''Goodbye! '' @ wave)], Broke, st)
       \<and> invocations (fst (interactive_loop ag st (Inr line # rest))) = []
       \<and> snd (interactive_front_end ag (w\<lparr>checkpointer := st, terminal := Inr line # rest\<rparr>)) = Returned"
proof -
  have t: "turn ag st (Inr line) = ([Prompt input_prompt, Print (''Goodbye! '' @ wave)], Break, st)"
    by (simp add: turn_def turn_body_exit [OF assms])
  then have l: "interactive_loop ag st (Inr line # rest) =
           ([Prompt input_prompt, Print (''Goodbye! '' @ wave)], Broke, st)"
    by simp
  show ?thesis
    by (simp add: t l interactive_front_end_def)
qed

text \<open>
  Claim C8 on a line made of a space, a tab, \<^verbatim>\<open>QuIt\<close> and two spaces, followed by
  a question that is never read.
\<close>
theorem exit_keyword_ends_loop_witness:
  "lower (strip ('' '' @ [CHR 0x09] @ ''QuIt  '')) \<in> set exit_keywords
   \<and> interactive_loop answering_agent [] [Inr ('' '' @ [CHR 0x09] @ ''QuIt  ''), Inr ''list bridges''] =
       ([Prompt input_prompt, Print (''Goodbye! '' @ wave)], Broke, [])"
proof -
  have h: "lower (strip ('' '' @ [CHR 0x09] @ ''QuIt  '')) \<in> set exit_keywords"
    by (simp add: exit_keywords_def lower_def strip_def isspace_def py_whitespace_def
          lower_char_def)
  show ?thesis
    using h exit_keyword_ends_loop [OF h, of answering_agent "[]" "[Inr ''list bridges'']"]
    by simp
qed

text \<open>
  Claim C3, amended. When the stripped, lowercased input line is \<^verbatim>\<open>test\<close>, the agent is
  invoked exactly once in that iteration, with the fixed user message
  \<^verbatim>\<open>Please summarize the logical network topology in OVN\<close> (the claim quotes a shorter
  text), for every agent and every conversation store; the store after the iteration is
  the one that this call of the agent leaves.
\<close>
theorem test_keyword_fixed_query:
  assumes "lower (strip line) = ''test''"
  shows "invocations (fst (turn ag st (Inr line))) =
           [''Please summarize the logical network topology in OVN'']
       \<and> snd (snd (turn ag st (Inr line))) =
           snd (ag st ''Please summarize the logical network topology in OVN'')"
proof -
  have ne: "lower (strip line) \<notin> set exit_keywords"
    using assms by (simp add: exit_keywords_def)
  obtain evs r st' where a: "ask ag st test_query = (evs, r, st')"
    by (cases "ask ag st test_query") auto
  have i: "invocations evs = [test_query]"
    using invocations_ask [of ag st test_query] a by simp
  have s: "st' = snd (ag st test_query)"
    using a by (auto simp: ask_def split: prod.splits sum.splits)
  show ?thesis
    using assms ne a i s
    by (cases r) (simp_all add: turn_def turn_body_def invocations_append test_query_def)
qed

text \<open>Claim C3, amended, on the line \<^verbatim>\<open>" TEST"\<close> with a conversation under way.\<close>
theorem test_keyword_fixed_query_witness:
  "lower (strip '' TEST'') = ''test''
   \<and> invocations (fst (turn answering_agent [Message ''user'' ''hello''] (Inr '' TEST''))) =
       [''Please summarize the logical network topology in OVN'']
   \<and> snd (snd (turn answering_agent [Message ''user'' ''hello''] (Inr '' TEST''))) =
       [Message ''user'' ''hello'',
        Message ''user'' ''Please summarize the logical network topology in OVN'',
        Message ''assistant'' ''done'']"
proof -
  have h: "lower (strip '' TEST'') = ''test''"
    by (simp add: lower_def strip_def isspace_def py_whitespace_def lower_char_def)
  show ?thesis
    using h test_keyword_fixed_query [OF h, of answering_agent "[Message ''user'' ''hello'']"]
    by (simp add: answering_agent_def Let_def)
qed

text \<open>
  Claim C3 as stated fails: on the line \<^verbatim>\<open>test\<close> the message given to the agent is not
  \<^verbatim>\<open>summarize the logical network topology\<close>.
\<close>
theorem test_keyword_query_counterexample:
  "invocations (fst (turn answering_agent [] (Inr ''test''))) \<noteq>
     [''summarize the logical network topology'']"
  by (simp add: turn_def turn_body_def ask_def answering_agent_def exit_keywords_def
        lower_def strip_def isspace_def py_whitespace_def lower_char_def test_query_def
        thread_id_def Let_def)

subsection \<open>How main is put together\<close>

lemma main_parse_error:
  "parse_args e c = Inl x \<Longrightarrow> main e c w = ([], Raised x)"
  by (simp add: main_def)

lemma main_model_error:
  "parse_args e c = Inr a \<Longrightarrow> build_model e = (evs1, Inl x) \<Longrightarrow>
   main e c w = (evs1, Raised x)"
  by (simp add: main_def)

lemma main_tools_error:
  "parse_args e c = Inr a \<Longrightarrow> build_model e = (evs1, Inr model) \<Longrightarrow>
   load_tools e (ic a) w = (evs2, Inl x) \<Longrightarrow>
   main e c w = (evs1 @ evs2, Raised x)"
  by (simp add: main_def)

lemma main_interactive:
  "parse_args e c = Inr a \<Longrightarrow> build_model e = (evs1, Inr model) \<Longrightarrow>
   load_tools e (ic a) w = (evs2, Inr tools) \<Longrightarrow> interactive a \<Longrightarrow>
   main e c w =
     (evs1 @ evs2 @ create_agent e w model tools @
        fst (interactive_front_end (react_agent w model tools prompt) w),
      snd (interactive_front_end (react_agent w model tools prompt) w))"
  by (simp add: main_def split: prod.splits)

lemma main_network:
  "parse_args e c = Inr a \<Longrightarrow> build_model e = (evs1, Inr model) \<Longrightarrow>
   load_tools e (ic a) w = (evs2, Inr tools) \<Longrightarrow> \<not> interactive a \<Longrightarrow>
   main e c w =
     (evs1 @ evs2 @ create_agent e w model tools @ fst (network_front_end e a w),
      snd (network_front_end e a w))"
  by (simp add: main_def split: prod.splits)

lemma parse_args_flags:
  "parse_args e c = Inr a \<Longrightarrow> interactive a = flag_interactive c \<and> ic a = flag_ic c"
  by (auto simp: parse_args_def Let_def split: option.splits)

subsection \<open>Events of the stages\<close>

lemma build_model_quiet:
  "build_model e = (evs, r) \<Longrightarrow>
   health_events evs = [] \<and> agents_created evs = [] \<and> invocations evs = []
   \<and> servers_run evs = []"
  by (auto simp: build_model_def Let_def banner_def health_events_def split: if_splits)

lemma build_model_models:
  "build_model e = (evs, r) \<Longrightarrow>
   models_built evs = (case r of Inl x \<Rightarrow> [] | Inr model \<Rightarrow> [model])"
  by (auto simp: build_model_def Let_def banner_def split: if_splits)

lemma first_mcp_config_quiet:
  "health_events (snd (first_mcp_config e b)) = []
   \<and> agents_created (snd (first_mcp_config e b)) = []
   \<and> invocations (snd (first_mcp_config e b)) = []
   \<and> servers_run (snd (first_mcp_config e b)) = []
   \<and> models_built (snd (first_mcp_config e b)) = []"
  by (cases b)
     (simp_all add: first_mcp_config_def MCP_SERVERS_def IC_MCP_SERVERS_def health_events_def)

lemma second_mcp_config_quiet:
  "health_events (snd (second_mcp_config e)) = []
   \<and> agents_created (snd (second_mcp_config e)) = []
   \<and> invocations (snd (second_mcp_config e)) = []
   \<and> servers_run (snd (second_mcp_config e)) = []
   \<and> models_built (snd (second_mcp_config e)) = []"
  by (simp add: second_mcp_config_def MCP_SERVERS_def health_events_def)

lemma load_tools_quiet:
  assumes "load_tools e b w = (evs, r)"
  shows "health_events evs = [] \<and> agents_created evs = [] \<and> invocations evs = []
         \<and> servers_run evs = []
   \<and> models_built evs = []"
proof -
  obtain cfg1 logs1 where c1: "first_mcp_config e b = (cfg1, logs1)"
    by (cases "first_mcp_config e b") auto
  obtain cfg2 logs2 where c2: "second_mcp_config e = (cfg2, logs2)"
    by (cases "second_mcp_config e") auto
  have q1: "health_events logs1 = [] \<and> agents_created logs1 = [] \<and> invocations logs1 = []
            \<and> servers_run logs1 = []
   \<and> models_built logs1 = []"
    using first_mcp_config_quiet [of e b] c1 by simp
  have q2: "health_events logs2 = [] \<and> agents_created logs2 = [] \<and> invocations logs2 = []
            \<and> servers_run logs2 = []
   \<and> models_built logs2 = []"
    using second_mcp_config_quiet [of e] c2 by simp
  show ?thesis
    using assms q1 q2
    by (auto simp: load_tools_def c1 c2 Let_def tools_loaded_def health_events_def
          agents_created_append invocations_append servers_run_append models_built_append
          split: sum.splits if_splits)
qed

lemma create_agent_events:
  "health_events (create_agent e w model tools) = []
   \<and> agents_created (create_agent e w model tools) = [tools]
   \<and> invocations (create_agent e w model tools) = []
   \<and> servers_run (create_agent e w model tools) = []
   \<and> models_built (create_agent e w model tools) = []"
  by (simp add: create_agent_def health_events_def)

lemma Pretty_print_quiet:
  "health_events (map Pretty_print msgs) = [] \<and> agents_created (map Pretty_print msgs) = []
   \<and> servers_run (map Pretty_print msgs) = []
   \<and> models_built (map Pretty_print msgs) = []"
  by (induction msgs) (simp_all add: health_events_def)

lemma ask_quiet:
  "ask ag st text = (evs, r, st') \<Longrightarrow>
   health_events evs = [] \<and> agents_created evs = [] \<and> servers_run evs = []
   \<and> models_built evs = []"
  using Pretty_print_quiet
  by (auto simp: ask_def health_events_def split: prod.splits sum.splits)

lemma turn_body_quiet:
  assumes "turn_body ag st inp = (evs, r, st')"
  shows "health_events evs = [] \<and> agents_created evs = [] \<and> servers_run evs = []
   \<and> models_built evs = []"
proof (cases inp)
  case (Inl x)
  then show ?thesis
    using assms by (auto simp: turn_body_def health_events_def)
next
  case (Inr line)
  obtain evs1 r1 st1 where a1: "ask ag st test_query = (evs1, r1, st1)"
    by (cases "ask ag st test_query") auto
  obtain evs2 r2 st2 where a2: "ask ag st (strip line) = (evs2, r2, st2)"
    by (cases "ask ag st (strip line)") auto
  show ?thesis
    using assms Inr a1 a2 ask_quiet [OF a1] ask_quiet [OF a2]
    by (auto simp: turn_body_def Let_def health_events_def agents_created_append
          servers_run_append models_built_append split: if_splits)
qed

lemma turn_quiet:
  assumes "turn ag st inp = (evs, f, st')"
  shows "health_events evs = [] \<and> agents_created evs = [] \<and> servers_run evs = []
   \<and> models_built evs = []"
proof -
  obtain evs0 r st0 where b: "turn_body ag st inp = (evs0, r, st0)"
    by (cases "turn_body ag st inp") auto
  show ?thesis
    using assms b turn_body_quiet [OF b]
    by (auto simp: turn_def health_events_def agents_created_append servers_run_append models_built_append
          split: sum.splits if_splits)
qed

lemma interactive_loop_quiet:
  "interactive_loop ag st script = (evs, r, st') \<Longrightarrow>
   health_events evs = [] \<and> agents_created evs = [] \<and> servers_run evs = []
   \<and> models_built evs = []"
proof (induction script arbitrary: st evs r st')
  case Nil
  then show ?case by (simp add: health_events_def)
next
  case (Cons inp rest)
  obtain evs0 f st0 where t: "turn ag st inp = (evs0, f, st0)"
    by (cases "turn ag st inp") auto
  note q = turn_quiet [OF t]
  show ?case
  proof (cases f)
    case Continue
    obtain evs1 r1 st1 where l: "interactive_loop ag st0 rest = (evs1, r1, st1)"
      by (cases "interactive_loop ag st0 rest") auto
    from Cons.IH [OF l] q Cons.prems t Continue l show ?thesis
      by (auto simp: health_events_append agents_created_append servers_run_append models_built_append)
  next
    case Break
    with Cons.prems t q show ?thesis by auto
  next
    case (Propagate x)
    with Cons.prems t q show ?thesis by auto
  qed
qed

lemma interactive_front_end_quiet:
  "health_events (fst (interactive_front_end ag w)) = []
   \<and> agents_created (fst (interactive_front_end ag w)) = []
   \<and> servers_run (fst (interactive_front_end ag w)) = []
   \<and> models_built (fst (interactive_front_end ag w)) = []"
proof -
  obtain evs r st where l: "interactive_loop ag (checkpointer w) (terminal w) = (evs, r, st)"
    by (cases "interactive_loop ag (checkpointer w) (terminal w)") auto
  show ?thesis
    using interactive_loop_quiet [OF l]
    by (simp add: interactive_front_end_def l health_events_def)
qed

subsection \<open>The health listener\<close>

lemma health_try_raises_Exception:
  "health_try e w = (hevs, Some x) \<Longrightarrow> is_Exception x"
  by (auto simp: health_try_def Let_def int_error_def split: option.splits if_splits)

lemma start_health_server_returns: "snd (start_health_server e w) = None"
proof (cases "health_try e w")
  case (Pair hevs r)
  then show ?thesis
    using health_try_raises_Exception [of e w hevs]
    by (cases r) (auto simp: start_health_server_def)
qed

lemma start_health_server_failure:
  assumes "health_try e w = (hevs, Some x)"
  shows "start_health_server e w =
           (hevs @ [Log ERROR ''Failed to start health check server: {}'' [S (str_exn x)]], None)"
  using assms health_try_raises_Exception [OF assms] by (simp add: start_health_server_def)

lemma health_try_success:
  assumes "py_int (getenv e ''HEALTH_PORT'' ''8086'') = Some p" "0 \<le> p" "p \<le> 65535"
    and "socket_bind w p = None" "thread_start w = None"
  shows "health_try e w =
           ([HTTPServer ''0.0.0.0'' p, Thread_start ''run_health_server'' True,
             Log INFO ''Health check server started on port {}'' [N p]], None)"
  using assms by (simp add: health_try_def Let_def)

lemma network_front_end_serves:
  "network_front_end e a w =
     ([To_a2a_server, Set_agent_card (researcher_card a)] @ fst (start_health_server e w) @
      [Print (check_mark @ '' A2A Server initialized successfully!''),
       Print ''I can gather information about Open Virtual Networking and Open vSwitch.'',
       Printf ''Connected to {} MCP servers'' [N (int (length (MCP_SERVERS e)))],
       Printf ''Using OpenAI-compatible model at: {}''
         [getenv_val e ''RESEARCHER_MODEL_ENDPOINT_URL''],
       Printf ''A2A Server listening on {}:{}'' [S (host a), N (port a)],
       Print (nl # ''Ready to accept A2A connections!''),
       Print (replicate 50 CHR ''-''),
       Run_server (host a) (port a)],
      Serving)"
  using start_health_server_returns [of e w]
  by (cases "start_health_server e w") (simp add: network_front_end_def)

lemma health_try_events:
  "health_try e w = (hevs, r) \<Longrightarrow>
   agents_created hevs = [] \<and> servers_run hevs = []
   \<and> models_built hevs = [] \<and> invocations hevs = []"
  by (auto simp: health_try_def Let_def split: option.splits if_splits)

lemma start_health_server_events:
  "agents_created (fst (start_health_server e w)) = []
   \<and> servers_run (fst (start_health_server e w)) = []
   \<and> models_built (fst (start_health_server e w)) = []
   \<and> invocations (fst (start_health_server e w)) = []"
proof (cases "health_try e w")
  case (Pair hevs r)
  then show ?thesis
    using health_try_events [OF Pair]
    by (cases r) (auto simp: start_health_server_def agents_created_append
                   servers_run_append models_built_append invocations_append)
qed

subsection \<open>Loading the tools\<close>

lemma load_tools_first_error:
  "get_tools w 0 (fst (first_mcp_config e b)) = Inl x \<Longrightarrow> snd (load_tools e b w) = Inl x"
  by (cases "first_mcp_config e b") (simp add: load_tools_def Let_def)

lemma load_tools_second_error:
  "get_tools w 0 (fst (first_mcp_config e b)) = Inr ts \<Longrightarrow>
   get_tools w 1 (fst (second_mcp_config e)) = Inl x \<Longrightarrow> snd (load_tools e b w) = Inl x"
  by (cases "first_mcp_config e b"; cases "second_mcp_config e")
     (simp add: load_tools_def Let_def)

lemma load_tools_result:
  "snd (load_tools e b w) = Inr tools \<Longrightarrow>
   get_tools w 1 (fst (second_mcp_config e)) = Inr tools
   \<and> (\<exists>ts. get_tools w 0 (fst (first_mcp_config e b)) = Inr ts)"
  by (cases "first_mcp_config e b"; cases "second_mcp_config e")
     (auto simp: load_tools_def Let_def split: sum.splits)

lemma gather_fails:
  "(server, c) \<in> set cfg \<Longrightarrow> isl (d server c) \<Longrightarrow>
   \<exists>x s cn. gather d cfg = Inl x \<and> (s, cn) \<in> set cfg \<and> d s cn = Inl x"
proof (induction cfg)
  case Nil
  then show ?case by simp
next
  case (Cons p cfg)
  obtain s0 c0 where p: "p = (s0, c0)" by (cases p)
  show ?case
  proof (cases "d s0 c0")
    case (Inl x)
    then show ?thesis using p by auto
  next
    case (Inr ts)
    with Cons.prems p have "(server, c) \<in> set cfg" by auto
    from Cons.IH [OF this Cons.prems(2)] obtain x s cn
      where "gather d cfg = Inl x" "(s, cn) \<in> set cfg" "d s cn = Inl x" by blast
    then show ?thesis using p Inr by auto
  qed
qed

lemma client_get_tools_fails:
  assumes "(server, c) \<in> set cfg" "isl (discover k server c)"
  shows "\<exists>x s cn. client_get_tools discover k cfg = Inl x \<and> discover k s cn = Inl x"
proof -
  from gather_fails [of server c cfg "discover k", OF assms] obtain x s cn
    where "gather (discover k) cfg = Inl x" "discover k s cn = Inl x" by blast
  then show ?thesis by (auto simp: client_get_tools_def)
qed

lemma main_aborts_on_tools_error:
  assumes "parse_args e c = Inr a" "snd (build_model e) = Inr model"
    and "snd (load_tools e (ic a) w) = Inl x"
  shows "snd (main e c w) = Raised x \<and> agents_created (fst (main e c w)) = []
         \<and> invocations (fst (main e c w)) = [] \<and> servers_run (fst (main e c w)) = []
         \<and> health_events (fst (main e c w)) = []"
proof -
  obtain evs1 where b: "build_model e = (evs1, Inr model)"
    using assms(2) by (cases "build_model e") auto
  obtain evs2 where l: "load_tools e (ic a) w = (evs2, Inl x)"
    using assms(3) by (cases "load_tools e (ic a) w") auto
  show ?thesis
    using main_tools_error [OF assms(1) b l] build_model_quiet [OF b] load_tools_quiet [OF l]
    by (simp add: agents_created_append invocations_append servers_run_append
          health_events_append)
qed

text \<open>
  Claim C5. Let startup get as far as loading the tools, and let the client library
  load all or nothing: a load fails as soon as one server of its configuration fails to
  answer (\<open>discover k s cn\<close> is the answer of server \<open>s\<close> to the \<open>k\<close>-th load).
  If a configured server fails to answer a load that asks it (the first load asks every
  server of the first configuration, the second load the servers of the second), then
  \<^verbatim>\<open>main\<close> ends by raising the very error the failed load raised, no agent is created
  with any tool list, the agent is never invoked, and no server is run.
\<close>
theorem discovery_failure_aborts_startup:
  assumes "parse_args e c = Inr a" "snd (build_model e) = Inr model"
    and "\<And>k cfg s cn. (s, cn) \<in> set cfg \<Longrightarrow> isl (discover k s cn) \<Longrightarrow> isl (get_tools w k cfg)"
    and "((server, conn) \<in> set (fst (first_mcp_config e (ic a))) \<and> isl (discover 0 server conn))
       \<or> ((server, conn) \<in> set (fst (second_mcp_config e)) \<and> isl (discover 1 server conn))"
  shows "\<exists>x. snd (main e c w) = Raised x
           \<and> (get_tools w 0 (fst (first_mcp_config e (ic a))) = Inl x
                \<or> get_tools w 1 (fst (second_mcp_config e)) = Inl x)
           \<and> agents_created (fst (main e c w)) = []
           \<and> invocations (fst (main e c w)) = []
           \<and> servers_run (fst (main e c w)) = []"
proof -
  have "\<exists>x. snd (load_tools e (ic a) w) = Inl x
          \<and> (get_tools w 0 (fst (first_mcp_config e (ic a))) = Inl x
               \<or> get_tools w 1 (fst (second_mcp_config e)) = Inl x)"
  proof (cases "get_tools w 0 (fst (first_mcp_config e (ic a)))")
    case (Inl x)
    with load_tools_first_error [OF Inl] show ?thesis by blast
  next
    case (Inr ts)
    have "\<not> ((server, conn) \<in> set (fst (first_mcp_config e (ic a)))
             \<and> isl (discover 0 server conn))"
    proof
      assume "(server, conn) \<in> set (fst (first_mcp_config e (ic a)))
              \<and> isl (discover 0 server conn)"
      then have "isl (get_tools w 0 (fst (first_mcp_config e (ic a))))"
        using assms(3) by blast
      with Inr show False by simp
    qed
    with assms(4) have "(server, conn) \<in> set (fst (second_mcp_config e))"
      and "isl (discover 1 server conn)" by auto
    then have "isl (get_tools w 1 (fst (second_mcp_config e)))"
      using assms(3) by blast
    then obtain x where x: "get_tools w 1 (fst (second_mcp_config e)) = Inl x"
      by (cases "get_tools w 1 (fst (second_mcp_config e))") auto
    with load_tools_second_error [OF Inr x] show ?thesis by blast
  qed
  then obtain x where "snd (load_tools e (ic a) w) = Inl x"
    and "get_tools w 0 (fst (first_mcp_config e (ic a))) = Inl x
         \<or> get_tools w 1 (fst (second_mcp_config e)) = Inl x"
    by blast
  with main_aborts_on_tools_error [OF assms(1,2), of w x] show ?thesis by blast
qed

subsection \<open>Facts about the sample inputs\<close>

lemmas eval_defs =
  main_def parse_args_def getenv_def getenv_val_def py_int_def strip_def isspace_def
  py_whitespace_def int_unsigned_def digit_val_def build_model_def load_tools_def
  first_mcp_config_def second_mcp_config_def MCP_SERVERS_def IC_MCP_SERVERS_def
  client_get_tools_def tools_loaded_def create_agent_def network_front_end_def
  start_health_server_def health_try_def interactive_front_end_def turn_def turn_body_def
  ask_def lower_def lower_char_def exit_keywords_def test_query_def banner_def
  health_events_def Let_def

lemmas sample_defs =
  sample_world_def one_tool_each_def ic_sb_down_def answering_agent_def failing_agent_def
  cancelled_agent_def cli_network_def cli_interactive_def default_args_def
  default_model_def base_tools_def ic_tools_def port_in_use_def

lemma sample_parse_args:
  "parse_args Map.empty (cli_network b) = Inr (default_args False b)"
  "parse_args Map.empty cli_interactive = Inr (default_args True False)"
  "parse_args [''HEALTH_PORT'' \<mapsto> ''eighty''] (cli_network b) = Inr (default_args False b)"
  by (simp_all add: eval_defs sample_defs)

lemma sample_build_model:
  "snd (build_model Map.empty) = Inr default_model"
  "snd (build_model [''HEALTH_PORT'' \<mapsto> ''eighty'']) = Inr default_model"
  by (simp_all add: eval_defs sample_defs)

lemma sample_load_tools:
  "snd (load_tools Map.empty b (sample_world one_tool_each ag script)) = Inr base_tools"
  "snd (load_tools [''HEALTH_PORT'' \<mapsto> ''eighty''] b (sample_world one_tool_each ag script))
     = Inr base_tools"
  "snd (load_tools Map.empty b port_in_use) = Inr base_tools"
  by (cases b; simp add: eval_defs sample_defs)+

text \<open>
  Claim C1, at a failing input: the empty environment, the command line \<^verbatim>\<open>--ic\<close>, and
  five servers that each offer one tool. The first load returns the five tools, those of
  the two cross-zone servers included, but the agent is created with the three tools of
  the base servers: lines 225 to 238 build the configuration again from the base
  registry alone and load \<^verbatim>\<open>tools\<close> a second time.
\<close>
theorem ic_tools_not_given_to_agent:
  "agents_created (fst (main Map.empty (cli_network True)
       (sample_world one_tool_each answering_agent []))) = [base_tools]
   \<and> get_tools (sample_world one_tool_each answering_agent []) 0
       (fst (first_mcp_config Map.empty True)) = Inr (base_tools @ ic_tools)"
  by (simp add: eval_defs sample_defs)

text \<open>
  Claim C5 with the second cross-zone server down, under \<^verbatim>\<open>--ic\<close>, and the client
  library as the spec describes it: startup raises the connection error and no agent is
  created.
\<close>
theorem discovery_failure_aborts_startup_witness:
  "(''ovn-ic-sb'', Connection ''streamable_http'' ''http://localhost:8084'')
     \<in> set (fst (first_mcp_config Map.empty (ic (default_args False True))))
   \<and> isl (ic_sb_down 0 ''ovn-ic-sb'' (Connection ''streamable_http'' ''http://localhost:8084''))
   \<and> snd (main Map.empty (cli_network True) (sample_world ic_sb_down answering_agent []))
       = Raised (Exception ''ConnectError'' ''All connection attempts failed'')
   \<and> agents_created (fst (main Map.empty (cli_network True)
         (sample_world ic_sb_down answering_agent []))) = []
   \<and> servers_run (fst (main Map.empty (cli_network True)
         (sample_world ic_sb_down answering_agent []))) = []"
proof -
  let ?c = "Connection ''streamable_http'' ''http://localhost:8084''"
  let ?w = "sample_world ic_sb_down answering_agent []"
  have m: "(''ovn-ic-sb'', ?c) \<in> set (fst (first_mcp_config Map.empty (ic (default_args False True))))"
    by (simp add: first_mcp_config_True getenv_def default_args_def)
  have f: "isl (ic_sb_down 0 ''ovn-ic-sb'' ?c)"
    by (simp add: ic_sb_down_def)
  have g: "isl (get_tools ?w k cfg)" if "(s, cn) \<in> set cfg" "isl (ic_sb_down k s cn)"
    for k cfg s cn
    using client_get_tools_fails [of s cn cfg ic_sb_down k] that
    by (auto simp: sample_world_def)
  have r: "snd (main Map.empty (cli_network True) ?w)
       = Raised (Exception ''ConnectError'' ''All connection attempts failed'')"
    by (simp add: eval_defs sample_defs)
  have "\<exists>x. snd (main Map.empty (cli_network True) ?w) = Raised x
           \<and> (get_tools ?w 0 (fst (first_mcp_config Map.empty (ic (default_args False True)))) = Inl x
                \<or> get_tools ?w 1 (fst (second_mcp_config Map.empty)) = Inl x)
           \<and> agents_created (fst (main Map.empty (cli_network True) ?w)) = []
           \<and> invocations (fst (main Map.empty (cli_network True) ?w)) = []
           \<and> servers_run (fst (main Map.empty (cli_network True) ?w)) = []"
  proof (rule discovery_failure_aborts_startup
           [where discover = ic_sb_down and server = "''ovn-ic-sb''" and conn = ?c,
            OF sample_parse_args(1) sample_build_model(1)])
    show "isl (get_tools ?w k cfg)" if "(s, cn) \<in> set cfg" "isl (ic_sb_down k s cn)"
      for k cfg s cn
      using g [OF that] .
    show "((''ovn-ic-sb'', ?c) \<in> set (fst (first_mcp_config Map.empty (ic (default_args False True))))
            \<and> isl (ic_sb_down 0 ''ovn-ic-sb'' ?c))
          \<or> ((''ovn-ic-sb'', ?c) \<in> set (fst (second_mcp_config Map.empty))
            \<and> isl (ic_sb_down 1 ''ovn-ic-sb'' ?c))"
      using m f by simp
  qed
  then have "agents_created (fst (main Map.empty (cli_network True) ?w)) = []
        \<and> servers_run (fst (main Map.empty (cli_network True) ?w)) = []"
    by blast
  with m f r show ?thesis by simp
qed

subsection \<open>The model endpoint\<close>

lemma network_front_end_events:
  "agents_created (fst (network_front_end e a w)) = []
   \<and> models_built (fst (network_front_end e a w)) = []
   \<and> invocations (fst (network_front_end e a w)) = []
   \<and> servers_run (fst (network_front_end e a w)) = [(host a, port a)]
   \<and> health_events (fst (network_front_end e a w)) = health_events (fst (start_health_server e w))
   \<and> last (fst (network_front_end e a w)) = Run_server (host a) (port a)
   \<and> snd (network_front_end e a w) = Serving"
  using start_health_server_events [of e w]
  by (simp add: network_front_end_serves agents_created_append models_built_append
        invocations_append servers_run_append health_events_def)

lemma main_models_built:
  assumes "parse_args e c = Inr a" "snd (build_model e) = Inr model"
  shows "models_built (fst (main e c w)) = [model]"
proof -
  obtain evs1 where b: "build_model e = (evs1, Inr model)"
    using assms(2) by (cases "build_model e") auto
  have m1: "models_built evs1 = [model]"
    using build_model_models [OF b] by simp
  obtain evs2 r where l: "load_tools e (ic a) w = (evs2, r)"
    by (cases "load_tools e (ic a) w") auto
  note q2 = load_tools_quiet [OF l]
  show ?thesis
  proof (cases r)
    case (Inl x)
    with l have l': "load_tools e (ic a) w = (evs2, Inl x)" by simp
    from main_tools_error [OF assms(1) b l'] m1 q2 show ?thesis
      by (simp add: models_built_append)
  next
    case (Inr tools)
    with l have l': "load_tools e (ic a) w = (evs2, Inr tools)" by simp
    show ?thesis
    proof (cases "interactive a")
      case True
      from main_interactive [OF assms(1) b l' True] m1 q2
        create_agent_events [of e w model tools]
        interactive_front_end_quiet [of "react_agent w model tools prompt" w]
      show ?thesis by (simp add: models_built_append)
    next
      case False
      from main_network [OF assms(1) b l' False] m1 q2
        create_agent_events [of e w model tools] network_front_end_events [of e a w]
      show ?thesis by (simp add: models_built_append)
    qed
  qed
qed

text \<open>
  Claim C2, amended. Let the command line be read. If
  \<^verbatim>\<open>RESEARCHER_MODEL_ENDPOINT_URL\<close> is missing from the environment, startup uses the
  default \<^verbatim>\<open>http://localhost:11434\<close> and builds the model client with it (the claim
  has startup fail). If the variable is set to the empty string, startup raises the
  \<^verbatim>\<open>ValueError\<close> right after the banner and builds no model client. If it is set to
  anything else, the model client is built with that value.
\<close>
theorem model_endpoint_default_or_error:
  assumes "parse_args e c = Inr a"
  shows "(e ''RESEARCHER_MODEL_ENDPOINT_URL'' = None \<longrightarrow>
            map base_url (models_built (fst (main e c w))) = [''http://localhost:11434''])
       \<and> (e ''RESEARCHER_MODEL_ENDPOINT_URL'' = Some [] \<longrightarrow>
            main e c w =
              (banner,
               Raised (Exception ''ValueError''
                 ''RESEARCHER_MODEL_ENDPOINT_URL environment variable must be set''))
            \<and> models_built (fst (main e c w)) = [])
       \<and> (e ''RESEARCHER_MODEL_ENDPOINT_URL'' = Some u \<and> u \<noteq> [] \<longrightarrow>
            map base_url (models_built (fst (main e c w))) = [u])"
proof (intro conjI impI)
  assume "e ''RESEARCHER_MODEL_ENDPOINT_URL'' = None"
  then obtain model where "snd (build_model e) = Inr model"
    and "base_url model = ''http://localhost:11434''"
    by (simp add: build_model_def getenv_def Let_def)
  with main_models_built [OF assms, of model w]
  show "map base_url (models_built (fst (main e c w))) = [''http://localhost:11434'']"
    by simp
next
  assume "e ''RESEARCHER_MODEL_ENDPOINT_URL'' = Some []"
  then have b: "build_model e =
      (banner, Inl (Exception ''ValueError''
                 ''RESEARCHER_MODEL_ENDPOINT_URL environment variable must be set''))"
    by (simp add: build_model_def getenv_def)
  from main_model_error [OF assms b]
  show m: "main e c w =
      (banner, Raised (Exception ''ValueError''
                 ''RESEARCHER_MODEL_ENDPOINT_URL environment variable must be set''))" .
  show "models_built (fst (main e c w)) = []"
    by (simp add: m banner_def)
next
  assume "e ''RESEARCHER_MODEL_ENDPOINT_URL'' = Some u \<and> u \<noteq> []"
  then obtain model where "snd (build_model e) = Inr model" and "base_url model = u"
    by (simp add: build_model_def getenv_def Let_def)
  with main_models_built [OF assms, of model w]
  show "map base_url (models_built (fst (main e c w))) = [u]"
    by simp
qed

text \<open>
  Claim C2, amended, on three environments: one without the variable, one with the empty
  string, one with an address.
\<close>
theorem model_endpoint_default_or_error_witness:
  "map base_url (models_built (fst (main Map.empty (cli_network False) port_in_use)))
     = [''http://localhost:11434'']
   \<and> main [''RESEARCHER_MODEL_ENDPOINT_URL'' \<mapsto> []] (cli_network False) port_in_use =
       (banner,
        Raised (Exception ''ValueError''
          ''RESEARCHER_MODEL_ENDPOINT_URL environment variable must be set''))
   \<and> map base_url (models_built (fst (main [''RESEARCHER_MODEL_ENDPOINT_URL'' \<mapsto> ''http://vllm:8000/v1'']
         (cli_network False) port_in_use)))
     = [''http://vllm:8000/v1'']"
proof -
  have p: "parse_args [''RESEARCHER_MODEL_ENDPOINT_URL'' \<mapsto> v] (cli_network False)
             = Inr (default_args False False)" for v
    by (simp add: eval_defs sample_defs)
  show ?thesis
    using model_endpoint_default_or_error [OF sample_parse_args(1), of False port_in_use]
      model_endpoint_default_or_error [OF p, of "[]" port_in_use]
      model_endpoint_default_or_error [OF p, of "''http://vllm:8000/v1''" port_in_use
         "''http://vllm:8000/v1''"]
    by simp
qed

text \<open>
  Claim C2 as stated fails: with the variable missing from the environment, startup
  raises nothing, builds the model client for the default address and goes on to serve.
\<close>
theorem missing_endpoint_counterexample:
  "models_built (fst (main Map.empty (cli_network False)
      (sample_world one_tool_each answering_agent []))) = [default_model]
   \<and> snd (main Map.empty (cli_network False)
      (sample_world one_tool_each answering_agent [])) = Serving"
  by (simp add: eval_defs sample_defs)

subsection \<open>The health listener and the two modes\<close>

lemma main_health_events_interactive:
  assumes "flag_interactive c"
  shows "health_events (fst (main e c w)) = []"
proof (cases "parse_args e c")
  case (Inl x)
  then show ?thesis by (simp add: main_parse_error health_events_def)
next
  case (Inr a)
  with assms parse_args_flags [OF Inr] have i: "interactive a" by simp
  obtain evs1 r1 where b: "build_model e = (evs1, r1)"
    by (cases "build_model e") auto
  note q1 = build_model_quiet [OF b]
  show ?thesis
  proof (cases r1)
    case (Inl x)
    with b have b': "build_model e = (evs1, Inl x)" by simp
    from main_model_error [OF Inr b', of w] q1 show ?thesis by simp
  next
    case (Inr model)
    with b have b': "build_model e = (evs1, Inr model)" by simp
    obtain evs2 r2 where l: "load_tools e (ic a) w = (evs2, r2)"
      by (cases "load_tools e (ic a) w") auto
    note q2 = load_tools_quiet [OF l]
    show ?thesis
    proof (cases r2)
      case (Inl x)
      with l have l': "load_tools e (ic a) w = (evs2, Inl x)" by simp
      from main_tools_error [OF \<open>parse_args e c = Inr a\<close> b' l'] q1 q2 show ?thesis
        by (simp add: health_events_append)
    next
      case (Inr tools)
      with l have l': "load_tools e (ic a) w = (evs2, Inr tools)" by simp
      from main_interactive [OF \<open>parse_args e c = Inr a\<close> b' l' i] q1 q2
        create_agent_events [of e w model tools]
        interactive_front_end_quiet [of "react_agent w model tools prompt" w]
      show ?thesis by (simp add: health_events_append)
    qed
  qed
qed

lemma main_reaches_network:
  assumes "parse_args e c = Inr a" "snd (build_model e) = Inr model"
    and "snd (load_tools e (ic a) w) = Inr tools" "\<not> interactive a"
  shows "snd (main e c w) = Serving"
    and "health_events (fst (main e c w)) = health_events (fst (start_health_server e w))"
    and "servers_run (fst (main e c w)) = [(host a, port a)]"
    and "last (fst (main e c w)) = Run_server (host a) (port a)"
    and "agents_created (fst (main e c w)) = [tools]"
    and "set (fst (start_health_server e w)) \<subseteq> set (fst (main e c w))"
proof -
  obtain evs1 where b: "build_model e = (evs1, Inr model)"
    using assms(2) by (cases "build_model e") auto
  obtain evs2 where l: "load_tools e (ic a) w = (evs2, Inr tools)"
    using assms(3) by (cases "load_tools e (ic a) w") auto
  note m = main_network [OF assms(1) b l assms(4)]
  note q = build_model_quiet [OF b] load_tools_quiet [OF l]
    create_agent_events [of e w model tools] network_front_end_events [of e a w]
  show "snd (main e c w) = Serving"
    using m q by simp
  show "health_events (fst (main e c w)) = health_events (fst (start_health_server e w))"
    using m q by (simp add: health_events_append)
  show "servers_run (fst (main e c w)) = [(host a, port a)]"
    using m q by (simp add: servers_run_append)
  show "agents_created (fst (main e c w)) = [tools]"
    using m q by (simp add: agents_created_append)
  have ne: "fst (network_front_end e a w) \<noteq> []"
    by (simp add: network_front_end_serves)
  show "last (fst (main e c w)) = Run_server (host a) (port a)"
    using m q ne by simp
  show "set (fst (start_health_server e w)) \<subseteq> set (fst (main e c w))"
    using m by (auto simp: network_front_end_serves)
qed

lemma main_agents_created:
  assumes "parse_args e c = Inr a" "snd (build_model e) = Inr model"
  shows "agents_created (fst (main e c w)) =
           (case snd (load_tools e (ic a) w) of Inl x \<Rightarrow> [] | Inr tools \<Rightarrow> [tools])"
proof -
  obtain evs1 where b: "build_model e = (evs1, Inr model)"
    using assms(2) by (cases "build_model e") auto
  obtain evs2 r where l: "load_tools e (ic a) w = (evs2, r)"
    by (cases "load_tools e (ic a) w") auto
  note q = build_model_quiet [OF b] load_tools_quiet [OF l]
  show ?thesis
  proof (cases r)
    case (Inl x)
    with l have l': "load_tools e (ic a) w = (evs2, Inl x)" by simp
    from main_tools_error [OF assms(1) b l'] q l' show ?thesis
      by (simp add: agents_created_append)
  next
    case (Inr tools)
    with l have l': "load_tools e (ic a) w = (evs2, Inr tools)" by simp
    show ?thesis
    proof (cases "interactive a")
      case True
      from main_interactive [OF assms(1) b l' True] q l'
        create_agent_events [of e w model tools]
        interactive_front_end_quiet [of "react_agent w model tools prompt" w]
      show ?thesis by (simp add: agents_created_append)
    next
      case False
      from main_network [OF assms(1) b l' False] q l'
        create_agent_events [of e w model tools] network_front_end_events [of e a w]
      show ?thesis by (simp add: agents_created_append)
    qed
  qed
qed

lemma agent_tools_are_the_second_load:
  assumes "parse_args e c = Inr a" "snd (build_model e) = Inr model"
    and "agents_created (fst (main e c w)) = [tools]"
  shows "get_tools w 1 (fst (second_mcp_config e)) = Inr tools"
proof (cases "snd (load_tools e (ic a) w)")
  case (Inl x)
  with main_agents_created [OF assms(1,2), of w] assms(3) show ?thesis by simp
next
  case (Inr ts)
  with main_agents_created [OF assms(1,2), of w] assms(3) have "ts = tools" by simp
  with Inr load_tools_result [of e "ic a" w tools] show ?thesis by simp
qed

text \<open>
  Claim C6, amended. In interactive mode the health listener is never started: no run
  of \<^verbatim>\<open>main\<close> under \<^verbatim>\<open>--interactive\<close> creates its socket or its thread (the claim
  has it started in both modes). In network mode, once startup has loaded the tools, a
  valid and free health port gives exactly one listener, bound to that port on all
  interfaces and served by one daemon thread, and \<^verbatim>\<open>main\<close> goes on to serve.
\<close>
theorem health_listener_in_network_mode_only:
  "(flag_interactive c \<longrightarrow> health_events (fst (main e c w)) = [])
   \<and> (\<not> flag_interactive c \<and> parse_args e c = Inr a \<and> snd (build_model e) = Inr model
        \<and> snd (load_tools e (ic a) w) = Inr tools
        \<and> py_int (getenv e ''HEALTH_PORT'' ''8086'') = Some p \<and> 0 \<le> p \<and> p \<le> 65535
        \<and> socket_bind w p = None \<and> thread_start w = None \<longrightarrow>
      health_events (fst (main e c w)) =
        [HTTPServer ''0.0.0.0'' p, Thread_start ''run_health_server'' True]
      \<and> snd (main e c w) = Serving)"
proof -
  have net: "health_events (fst (main e c w)) =
        [HTTPServer ''0.0.0.0'' p, Thread_start ''run_health_server'' True]
      \<and> snd (main e c w) = Serving"
    if h: "\<not> flag_interactive c \<and> parse_args e c = Inr a \<and> snd (build_model e) = Inr model
        \<and> snd (load_tools e (ic a) w) = Inr tools
        \<and> py_int (getenv e ''HEALTH_PORT'' ''8086'') = Some p \<and> 0 \<le> p \<and> p \<le> 65535
        \<and> socket_bind w p = None \<and> thread_start w = None"
  proof -
    from h have pa: "parse_args e c = Inr a" and bm: "snd (build_model e) = Inr model"
      and lt: "snd (load_tools e (ic a) w) = Inr tools" by simp_all
    from h parse_args_flags [OF pa] have ni: "\<not> interactive a" by simp
    from h have "health_try e w =
           ([HTTPServer ''0.0.0.0'' p, Thread_start ''run_health_server'' True,
             Log INFO ''Health check server started on port {}'' [N p]], None)"
      by (simp add: health_try_success)
    then have s: "health_events (fst (start_health_server e w)) =
           [HTTPServer ''0.0.0.0'' p, Thread_start ''run_health_server'' True]"
      by (simp add: start_health_server_def health_events_def)
    from main_reaches_network(1,2) [OF pa bm lt ni] s show ?thesis by simp
  qed
  show ?thesis
    using main_health_events_interactive [of c e w] net by blast
qed

text \<open>
  Claim C6, amended, on an interactive run and on a network run with the default health
  port.
\<close>
theorem health_listener_in_network_mode_only_witness:
  "flag_interactive cli_interactive
   \<and> health_events (fst (main Map.empty cli_interactive
        (sample_world one_tool_each answering_agent [Inr ''list bridges'']))) = []
   \<and> \<not> flag_interactive (cli_network False)
   \<and> py_int (getenv Map.empty ''HEALTH_PORT'' ''8086'') = Some 8086
   \<and> health_events (fst (main Map.empty (cli_network False)
        (sample_world one_tool_each answering_agent []))) =
        [HTTPServer ''0.0.0.0'' 8086, Thread_start ''run_health_server'' True]"
proof -
  let ?w = "sample_world one_tool_each answering_agent []"
  have i: "flag_interactive cli_interactive"
    by (simp add: cli_interactive_def)
  have n: "\<not> flag_interactive (cli_network False)"
    by (simp add: cli_network_def)
  have p: "py_int (getenv Map.empty ''HEALTH_PORT'' ''8086'') = Some 8086"
    by (simp add: eval_defs)
  have o: "socket_bind ?w 8086 = None" "thread_start ?w = None"
    by (simp_all add: sample_world_def)
  show ?thesis
    using i n p o sample_parse_args(1) [of False] sample_build_model(1)
      sample_load_tools(1) [of "ic (default_args False False)" answering_agent "[]"]
      health_listener_in_network_mode_only
        [of cli_interactive Map.empty
            "sample_world one_tool_each answering_agent [Inr ''list bridges'']"]
      health_listener_in_network_mode_only
        [of "cli_network False" Map.empty ?w "default_args False False" default_model
            base_tools 8086]
    by simp
qed

text \<open>
  Claim C6 as stated fails: an interactive run that creates the agent, answers one
  question and ends on \<^verbatim>\<open>quit\<close> never starts the health listener.
\<close>
theorem interactive_mode_no_health_listener:
  "health_events (fst (main Map.empty cli_interactive
      (sample_world one_tool_each answering_agent [Inr ''list bridges'', Inr ''quit'']))) = []
   \<and> agents_created (fst (main Map.empty cli_interactive
      (sample_world one_tool_each answering_agent [Inr ''list bridges'', Inr ''quit''])))
      = [base_tools]
   \<and> invocations (fst (main Map.empty cli_interactive
      (sample_world one_tool_each answering_agent [Inr ''list bridges'', Inr ''quit''])))
      = [''list bridges'']
   \<and> snd (main Map.empty cli_interactive
      (sample_world one_tool_each answering_agent [Inr ''list bridges'', Inr ''quit'']))
      = Returned"
  by (simp add: eval_defs sample_defs)

text \<open>
  Claim C10. The helper never lets an exception out. When its body fails, for a health
  port that is no integer, a port out of range, a port that cannot be bound or a thread
  that cannot be started, what was raised is an instance of \<^verbatim>\<open>Exception\<close>, it is
  caught and logged as an error, and in network mode startup goes on: the server object
  and its card are set up, \<^verbatim>\<open>run_server\<close> is called once, as the last thing
  \<^verbatim>\<open>main\<close> does, and the process serves.
\<close>
theorem health_failure_is_logged_and_startup_continues:
  assumes "parse_args e c = Inr a" "\<not> interactive a"
    and "snd (build_model e) = Inr model" "snd (load_tools e (ic a) w) = Inr tools"
    and "health_try e w = (hevs, Some x)"
  shows "snd (start_health_server e w) = None
       \<and> is_Exception x
       \<and> fst (start_health_server e w) =
           hevs @ [Log ERROR ''Failed to start health check server: {}'' [S (str_exn x)]]
       \<and> Log ERROR ''Failed to start health check server: {}'' [S (str_exn x)]
           \<in> set (fst (main e c w))
       \<and> servers_run (fst (main e c w)) = [(host a, port a)]
       \<and> last (fst (main e c w)) = Run_server (host a) (port a)
       \<and> snd (main e c w) = Serving"
proof -
  note f = start_health_server_failure [OF assms(5)]
  note r = main_reaches_network [OF assms(1,3,4,2)]
  have "Log ERROR ''Failed to start health check server: {}'' [S (str_exn x)]
           \<in> set (fst (main e c w))"
    using r(6) f by auto
  then show ?thesis
    using f r(1,3,4) health_try_raises_Exception [OF assms(5)] by simp
qed

text \<open>
  Claim C10 with \<^verbatim>\<open>HEALTH_PORT=eighty\<close>, and with a health port that is taken.
\<close>
theorem health_failure_is_logged_and_startup_continues_witness:
  "health_try [''HEALTH_PORT'' \<mapsto> ''eighty''] (sample_world one_tool_each answering_agent [])
     = ([], Some (int_error ''eighty''))
   \<and> snd (main [''HEALTH_PORT'' \<mapsto> ''eighty''] (cli_network False)
        (sample_world one_tool_each answering_agent [])) = Serving
   \<and> servers_run (fst (main [''HEALTH_PORT'' \<mapsto> ''eighty''] (cli_network False)
        (sample_world one_tool_each answering_agent []))) = [(''0.0.0.0'', 8085)]
   \<and> health_try Map.empty port_in_use
     = ([], Some (Exception ''OSError'' ''[Errno 98] Address already in use''))
   \<and> snd (main Map.empty (cli_network False) port_in_use) = Serving
   \<and> Log ERROR ''Failed to start health check server: {}''
        [S ''[Errno 98] Address already in use'']
        \<in> set (fst (main Map.empty (cli_network False) port_in_use))"
proof -
  let ?e = "[''HEALTH_PORT'' \<mapsto> ''eighty'']"
  let ?w = "sample_world one_tool_each answering_agent []"
  have n: "\<not> interactive (default_args False False)"
    by (simp add: default_args_def)
  have h1: "health_try ?e ?w = ([], Some (int_error ''eighty''))"
    by (simp add: eval_defs)
  have h2: "health_try Map.empty port_in_use
     = ([], Some (Exception ''OSError'' ''[Errno 98] Address already in use''))"
    by (simp add: eval_defs sample_defs)
  show ?thesis
    using h1 h2
      health_failure_is_logged_and_startup_continues
        [OF sample_parse_args(3) n sample_build_model(2) sample_load_tools(2) h1]
      health_failure_is_logged_and_startup_continues
        [OF sample_parse_args(1) n sample_build_model(1) sample_load_tools(3) h2]
    by (simp add: default_args_def)
qed

subsection \<open>Exceptions during a turn\<close>

text \<open>
  Claim C9, amended. Let the body of an iteration raise \<open>x\<close>, from \<^verbatim>\<open>input()\<close> or from
  the call of the agent. If \<open>x\<close> is a \<^verbatim>\<open>KeyboardInterrupt\<close>, the iteration prints the
  farewell and breaks, the loop ends and \<^verbatim>\<open>main\<close> returns. If \<open>x\<close> is an instance of
  \<^verbatim>\<open>Exception\<close>, it is caught and printed and the loop goes on with the next input.
  An exception of any other class is caught by neither handler and leaves the loop (the
  claim has every exception other than \<^verbatim>\<open>KeyboardInterrupt\<close> caught).
\<close>
theorem turn_exception_handling:
  assumes "turn_body ag st inp = (evs, Inl x, st')"
  shows "(x = KeyboardInterrupt \<longrightarrow>
            turn ag st inp = (evs @ [Print (nl # nl # ''Goodbye! '' @ wave)], Break, st')
            \<and> interactive_loop ag st (inp # rest) =
                (evs @ [Print (nl # nl # ''Goodbye! '' @ wave)], Broke, st')
            \<and> snd (interactive_front_end ag (w\<lparr>checkpointer := st, terminal := inp # rest\<rparr>))
                = Returned)
       \<and> (is_Exception x \<longrightarrow>
            turn ag st inp =
              (evs @ [Printf (nl # ''Error: {}'') [S (str_exn x)]], Continue, st')
            \<and> interactive_loop ag st (inp # rest) =
                (evs @ [Printf (nl # ''Error: {}'') [S (str_exn x)]]
                   @ fst (interactive_loop ag st' rest),
                 snd (interactive_loop ag st' rest)))
       \<and> (x \<noteq> KeyboardInterrupt \<and> \<not> is_Exception x \<longrightarrow>
            interactive_loop ag st (inp # rest) = (evs, Propagated x, st'))"
proof -
  have k: "turn ag st inp = (evs @ [Print (nl # nl # ''Goodbye! '' @ wave)], Break, st')"
    if "x = KeyboardInterrupt"
    using assms that by (simp add: turn_def)
  have c: "turn ag st inp =
             (evs @ [Printf (nl # ''Error: {}'') [S (str_exn x)]], Continue, st')"
    if "is_Exception x"
    using assms that by (cases x) (simp_all add: turn_def)
  have p: "turn ag st inp = (evs, Propagate x, st')"
    if "x \<noteq> KeyboardInterrupt \<and> \<not> is_Exception x"
    using assms that by (simp add: turn_def)
  show ?thesis
    using k c p
    by (auto simp: interactive_front_end_def split: prod.splits)
qed

text \<open>
  Claim C9, amended: an interrupt at the prompt, and a connection error of the agent
  followed by \<^verbatim>\<open>quit\<close>.
\<close>
theorem turn_exception_handling_witness:
  "turn_body answering_agent [] (Inl KeyboardInterrupt) =
     ([Prompt input_prompt], Inl KeyboardInterrupt, [])
   \<and> interactive_loop answering_agent [] [Inl KeyboardInterrupt, Inr ''list bridges''] =
       ([Prompt input_prompt, Print (nl # nl # ''Goodbye! '' @ wave)], Broke, [])
   \<and> is_Exception (Exception ''APIConnectionError'' ''Connection error.'')
   \<and> fst (snd (interactive_loop failing_agent [] [Inr ''list bridges'', Inr ''quit''])) = Broke
   \<and> fst (interactive_loop failing_agent [] [Inr ''list bridges'', Inr ''quit'']) =
       [Prompt input_prompt, Print (nl # magnifier @ '' Researching...''),
        Ainvoke ''list bridges'' thread_id,
        Printf (nl # ''Error: {}'') [S ''Connection error.''],
        Prompt input_prompt, Print (''Goodbye! '' @ wave)]"
proof -
  have b1: "turn_body answering_agent [] (Inl KeyboardInterrupt) =
     ([Prompt input_prompt], Inl KeyboardInterrupt, [])"
    by (simp add: turn_body_def)
  have b2: "turn_body failing_agent [] (Inr ''list bridges'') =
     ([Prompt input_prompt, Print (nl # magnifier @ '' Researching...''),
       Ainvoke ''list bridges'' thread_id],
      Inl (Exception ''APIConnectionError'' ''Connection error.''), [])"
    by (simp add: eval_defs sample_defs)
  have q: "interactive_loop failing_agent [] [Inr ''quit''] =
     ([Prompt input_prompt, Print (''Goodbye! '' @ wave)], Broke, [])"
    by (simp add: eval_defs)
  show ?thesis
    using b1 q
      turn_exception_handling [OF b1, of "[Inr ''list bridges'']"]
      turn_exception_handling [OF b2, of "[Inr ''quit'']"]
    by simp
qed

text \<open>
  Claim C9 as stated fails: the call of the agent is awaited, and when it is cancelled
  the \<^verbatim>\<open>CancelledError\<close>, which is no instance of \<^verbatim>\<open>Exception\<close>, is caught by
  neither handler; it ends the loop and leaves \<^verbatim>\<open>main\<close>, although \<^verbatim>\<open>quit\<close> was
  still to come.
\<close>
theorem uncaught_turn_exception:
  "snd (main Map.empty cli_interactive
      (sample_world one_tool_each cancelled_agent [Inr ''list bridges'', Inr ''quit'']))
     = Raised (BaseException ''CancelledError'' [])"
  by (simp add: eval_defs sample_defs)

end
